theory Spec2Isabelle
  imports Main
begin

section \<open>Python values shared by the two modules\<close>

text \<open>
  The development embeds two modules of the repository:
  \<^item> \<open>soma_workflow/client_types.py\<close>: the client-side object model (\<open>Job\<close>,
    \<open>BarrierJob\<close>, \<open>Workflow\<close>, \<open>Group\<close>, the special paths) with its
    constructors, the group expansion of \<open>Workflow.__init__\<close> and the serialisation
    \<open>to_dict\<close> / \<open>from_dict\<close> / \<open>attributs_equal\<close>;
  \<^item> \<open>soma/jobs/jobScheduler.py\<close>: the \<open>JobScheduler\<close> front end with its ownership
    gates and submission checks.

  Exceptions are values: a function that may raise returns \<open>py_error + 'a\<close>, with
  \<open>Inl\<close> for the exception. Python objects are compared by identity unless their class
  defines \<open>__eq__\<close>; every object of the model therefore carries the identity it was
  allocated at (a natural number), and a constructor takes the identity of the object it
  builds as its first argument.
\<close>

datatype py_error =
    TypeError
  | ValueError
  | AttributeError
  | RuntimeError
  | IndexError
  | IOError
  | PlainException
  | JobSchedulerError
  | NotFound
  | UnsupportedFormat

text \<open>
  \<open>pattern % args\<close> for the patterns a special path can hold. A pattern starts as
  \<open>'%s'\<close> and grows by concatenation, so the conversions met are \<open>%s\<close> and the
  escape \<open>%%\<close>. Too few or too many arguments raise \<open>TypeError\<close>, a lone trailing
  \<open>%\<close> raises \<open>ValueError\<close>. Any other conversion character is outside the fragment
  modelled and is reported as \<open>UnsupportedFormat\<close>.
\<close>

fun py_format :: "string \<Rightarrow> string list \<Rightarrow> py_error + string" where
  "py_format [] [] = Inr []"
| "py_format [] (a # as) = Inl TypeError"
| "py_format [c] args =
     (if c = CHR ''%'' then Inl ValueError else map_sum id ((#) c) (py_format [] args))"
| "py_format (c # d # cs) args =
     (if c \<noteq> CHR ''%'' then map_sum id ((#) c) (py_format (d # cs) args)
      else if d = CHR ''%'' then map_sum id ((#) CHR ''%'') (py_format cs args)
      else if d = CHR ''s'' then
        (case args of
           [] \<Rightarrow> Inl TypeError
         | a # as \<Rightarrow> map_sum id ((@) a) (py_format cs as))
      else Inl UnsupportedFormat)"

section \<open>\<open>client_types.py\<close>: special paths\<close>

text \<open>
  Modelled from the spec: the module \<open>soma_workflow.constants\<close> is not among the
  sources; its transfer statuses are the five the specification lists, of which
  \<open>FileTransfer.__init__\<close> uses \<open>FILES_ON_CLIENT\<close> and \<open>FILES_DO_NOT_EXIST\<close>.
\<close>

datatype file_status =
    FILES_DO_NOT_EXIST
  | FILES_ON_CLIENT
  | TRANSFERRING
  | FILES_ON_COMPUTE
  | READY_TO_TRANSFER_BACK

text \<open>
  A \<open>SpecialPath\<close> object holds a \<open>pattern\<close> and \<open>ref\<close>, the object it was derived
  from (\<open>None\<close> for an original). Every property of the subclasses reads and writes the
  private attribute of \<open>self.referent()\<close>. The model keeps, for each object, its own
  private attributes (with its identity) and a copy of those of its referent; a referent
  is always an original, as \<open>SpecialPath.__init__\<close> and \<open>__add__\<close> store
  \<open>path.referent()\<close>.
\<close>

record ft_attrs =
  ft_oid :: nat
  ft_client_path' :: "string option"
  ft_client_paths' :: "string list option"
  ft_initial_status' :: "file_status option"
  ft_disposal_timeout' :: "int option"
  ft_name' :: "string option"

record FileTransfer =
  ft_pattern :: string
  ft_ref :: "ft_attrs option"
  ft_self :: ft_attrs

definition ft_class_defaults :: "nat \<Rightarrow> ft_attrs" where
  "ft_class_defaults i =
     \<lparr>ft_oid = i, ft_client_path' = None, ft_client_paths' = None,
      ft_initial_status' = None, ft_disposal_timeout' = None, ft_name' = None\<rparr>"

definition ft_referent :: "FileTransfer \<Rightarrow> ft_attrs" where
  "ft_referent p = (case ft_ref p of Some r \<Rightarrow> r | None \<Rightarrow> ft_self p)"

definition ft_client_path :: "FileTransfer \<Rightarrow> string option" where
  "ft_client_path p = ft_client_path' (ft_referent p)"

definition ft_client_paths :: "FileTransfer \<Rightarrow> string list option" where
  "ft_client_paths p = ft_client_paths' (ft_referent p)"

definition ft_initial_status :: "FileTransfer \<Rightarrow> file_status option" where
  "ft_initial_status p = ft_initial_status' (ft_referent p)"

definition ft_disposal_timeout :: "FileTransfer \<Rightarrow> int option" where
  "ft_disposal_timeout p = ft_disposal_timeout' (ft_referent p)"

definition ft_name :: "FileTransfer \<Rightarrow> string option" where
  "ft_name p = ft_name' (ft_referent p)"

text \<open>
  The first positional argument of \<open>FileTransfer.__init__\<close> is either the flag
  \<open>is_input\<close> or, for the copy constructor, another \<open>FileTransfer\<close>.
\<close>

datatype ft_first_arg = IsInput bool | FtCopyOf FileTransfer

definition FileTransfer_init ::
  "nat \<Rightarrow> ft_first_arg \<Rightarrow> string option \<Rightarrow> int \<Rightarrow> string option \<Rightarrow> string list option
     \<Rightarrow> py_error + FileTransfer" where
  "FileTransfer_init i is_input client_path disposal_timeout name client_paths =
     (case is_input of
        FtCopyOf p \<Rightarrow>
          if client_path \<noteq> None \<or> name \<noteq> None \<or> client_paths \<noteq> None then Inl TypeError
          else Inr \<lparr>ft_pattern = ft_pattern p, ft_ref = Some (ft_referent p),
                    ft_self = ft_class_defaults i\<rparr>
      | IsInput b \<Rightarrow>
          (case client_path of
             None \<Rightarrow> Inl TypeError
           | Some cp \<Rightarrow>
               Inr \<lparr>ft_pattern = ''%s'', ft_ref = None,
                    ft_self =
                      \<lparr>ft_oid = i,
                       ft_client_path' = Some cp,
                       ft_client_paths' = client_paths,
                       ft_initial_status' =
                         Some (if b then FILES_ON_CLIENT else FILES_DO_NOT_EXIST),
                       ft_disposal_timeout' = Some disposal_timeout,
                       ft_name' =
                         (case name of
                            Some n \<Rightarrow> Some (if n \<noteq> [] then n else cp @ ''transfer'')
                          | None \<Rightarrow> Some (cp @ ''transfer''))\<rparr>\<rparr>))"

text \<open>
  \<open>SpecialPath.__add__\<close>: \<open>type(self)(self)\<close> runs the copy constructor, then the
  pattern is extended and \<open>ref\<close> set to the referent.
\<close>

definition ft_add :: "nat \<Rightarrow> FileTransfer \<Rightarrow> string \<Rightarrow> py_error + FileTransfer" where
  "ft_add i p other =
     (case FileTransfer_init i (FtCopyOf p) None 168 None None of
        Inl e \<Rightarrow> Inl e
      | Inr res \<Rightarrow> Inr (res\<lparr>ft_pattern := ft_pattern p @ other, ft_ref := Some (ft_referent p)\<rparr>))"

text \<open>\<open>SpecialPath.__eq__\<close> within one class: \<open>self.referent() is other.referent()\<close>.\<close>

definition ft_eq :: "FileTransfer \<Rightarrow> FileTransfer \<Rightarrow> bool" where
  "ft_eq a b = (ft_oid (ft_referent a) = ft_oid (ft_referent b))"



record srp_attrs =
  srp_oid :: nat
  srp_relative_path' :: "string option"
  srp_namespace' :: "string option"
  srp_uuid' :: "string option"
  srp_disposal_timeout' :: "int option"
  srp_disposal_timout :: "int option"

record SharedResourcePath =
  srp_pattern :: string
  srp_ref :: "srp_attrs option"
  srp_self :: srp_attrs

definition srp_class_defaults :: "nat \<Rightarrow> srp_attrs" where
  "srp_class_defaults i =
     \<lparr>srp_oid = i, srp_relative_path' = None, srp_namespace' = None, srp_uuid' = None,
      srp_disposal_timeout' = None, srp_disposal_timout = None\<rparr>"

definition srp_referent :: "SharedResourcePath \<Rightarrow> srp_attrs" where
  "srp_referent p = (case srp_ref p of Some r \<Rightarrow> r | None \<Rightarrow> srp_self p)"

datatype srp_first_arg = RelativePath string | SrpCopyOf SharedResourcePath

text \<open>
  The constructor assigns \<open>self.disposal_timout\<close> (so spelt), a plain attribute of the
  object; the property \<open>disposal_timeout\<close> keeps its class default \<open>None\<close>.
\<close>

definition SharedResourcePath_init ::
  "nat \<Rightarrow> srp_first_arg \<Rightarrow> string option \<Rightarrow> string option \<Rightarrow> int
     \<Rightarrow> py_error + SharedResourcePath" where
  "SharedResourcePath_init i relative_path namespace uuid disposal_timeout =
     (case relative_path of
        SrpCopyOf p \<Rightarrow>
          if namespace \<noteq> None \<or> uuid \<noteq> None then Inl TypeError
          else Inr \<lparr>srp_pattern = srp_pattern p, srp_ref = Some (srp_referent p),
                    srp_self = srp_class_defaults i\<rparr>
      | RelativePath rp \<Rightarrow>
          if namespace = None \<or> uuid = None then Inl TypeError
          else Inr \<lparr>srp_pattern = ''%s'', srp_ref = None,
                    srp_self =
                      \<lparr>srp_oid = i, srp_relative_path' = Some rp, srp_namespace' = namespace,
                       srp_uuid' = uuid, srp_disposal_timeout' = None,
                       srp_disposal_timout = Some disposal_timeout\<rparr>\<rparr>)"

definition srp_eq :: "SharedResourcePath \<Rightarrow> SharedResourcePath \<Rightarrow> bool" where
  "srp_eq a b = (srp_oid (srp_referent a) = srp_oid (srp_referent b))"


record tmp_attrs =
  tmp_oid :: nat
  tmp_is_directory' :: bool
  tmp_disposal_timeout' :: "int option"
  tmp_name' :: "string option"
  tmp_suffix' :: "string option"

record TemporaryPath =
  tmp_pattern :: string
  tmp_ref :: "tmp_attrs option"
  tmp_self :: tmp_attrs

definition tmp_class_defaults :: "nat \<Rightarrow> tmp_attrs" where
  "tmp_class_defaults i =
     \<lparr>tmp_oid = i, tmp_is_directory' = False, tmp_disposal_timeout' = None,
      tmp_name' = None, tmp_suffix' = None\<rparr>"

definition tmp_referent :: "TemporaryPath \<Rightarrow> tmp_attrs" where
  "tmp_referent p = (case tmp_ref p of Some r \<Rightarrow> r | None \<Rightarrow> tmp_self p)"

datatype tmp_first_arg = IsDirectory bool | TmpCopyOf TemporaryPath

definition TemporaryPath_init ::
  "nat \<Rightarrow> tmp_first_arg \<Rightarrow> int \<Rightarrow> string option \<Rightarrow> string \<Rightarrow> py_error + TemporaryPath" where
  "TemporaryPath_init i is_directory disposal_timeout name suffix =
     (case is_directory of
        TmpCopyOf p \<Rightarrow>
          if name \<noteq> None \<or> suffix \<noteq> [] then Inl TypeError
          else Inr \<lparr>tmp_pattern = tmp_pattern p, tmp_ref = Some (tmp_referent p),
                    tmp_self = tmp_class_defaults i\<rparr>
      | IsDirectory b \<Rightarrow>
          Inr \<lparr>tmp_pattern = ''%s'', tmp_ref = None,
               tmp_self =
                 \<lparr>tmp_oid = i, tmp_is_directory' = b,
                  tmp_disposal_timeout' = Some disposal_timeout,
                  tmp_name' = (case name of None \<Rightarrow> Some ''temporary'' | Some n \<Rightarrow> Some n),
                  tmp_suffix' = Some suffix\<rparr>\<rparr>)"

definition tmp_eq :: "TemporaryPath \<Rightarrow> TemporaryPath \<Rightarrow> bool" where
  "tmp_eq a b = (tmp_oid (tmp_referent a) = tmp_oid (tmp_referent b))"


subsection \<open>\<open>OptionPath\<close>\<close>

text \<open>
  The parent of an option path is a plain string or a special path. Passing an
  \<open>OptionPath\<close> as \<open>parent_path\<close> selects the copy constructor, so the stored parent is
  a string, a \<open>FileTransfer\<close>, a \<open>SharedResourcePath\<close> or a \<open>TemporaryPath\<close>.
\<close>

datatype parent_path =
    ParentStr string
  | ParentFT FileTransfer
  | ParentSRP SharedResourcePath
  | ParentTmp TemporaryPath

record opt_attrs =
  opt_oid :: nat
  opt_parent_path' :: "parent_path option"
  opt_parent_type' :: "string option"
  opt_uri' :: string
  opt_name' :: "string option"

record OptionPath =
  opt_pattern :: string
  opt_ref :: "opt_attrs option"
  opt_self :: opt_attrs


definition opt_referent :: "OptionPath \<Rightarrow> opt_attrs" where
  "opt_referent p = (case opt_ref p of Some r \<Rightarrow> r | None \<Rightarrow> opt_self p)"

definition opt_parent_type :: "OptionPath \<Rightarrow> string option" where
  "opt_parent_type p = opt_parent_type' (opt_referent p)"



definition opt_name :: "OptionPath \<Rightarrow> string option" where
  "opt_name p = opt_name' (opt_referent p)"








definition opt_eq :: "OptionPath \<Rightarrow> OptionPath \<Rightarrow> bool" where
  "opt_eq a b = (opt_oid (opt_referent a) = opt_oid (opt_referent b))"






section \<open>\<open>client_types.py\<close>: jobs\<close>

text \<open>
  An element of a command, of the referenced file lists, or a value of \<open>stdin\<close>,
  \<open>stdout_file\<close>, \<open>stderr_file\<close> and \<open>working_directory\<close>: a string, a special path,
  a tuple \<open>(path, relative_path)\<close> or a list of elements. \<open>Num\<close> is an integer; the
  constructors document no integer element, but \<open>from_serializable\<close> returns one for an
  identifier it cannot resolve.
\<close>

datatype cmd_elem =
    Str string
  | Num int
  | FT FileTransfer
  | SRP SharedResourcePath
  | Tmp TemporaryPath
  | Opt OptionPath
  | Tup cmd_elem string
  | Lst "cmd_elem list"

datatype job_class = JobClass | BarrierJobClass

record Job =
  j_oid :: nat
  j_class :: job_class
  j_name :: "cmd_elem option"
  j_command :: "cmd_elem list"
  j_referenced_input_files :: "cmd_elem list"
  j_referenced_output_files :: "cmd_elem list"
  j_stdin :: "cmd_elem option"
  j_join_stderrout :: bool
  j_disposal_timeout :: int
  j_stdout_file :: "cmd_elem option"
  j_stderr_file :: "cmd_elem option"
  j_working_directory :: "cmd_elem option"
  j_parallel_job_info :: "(string \<times> int) option"
  j_priority :: int
  j_native_specification :: "string option"

text \<open>\<open>not name\<close> for the \<open>name\<close> argument, a string or \<open>None\<close>.\<close>

definition name_falsy :: "string option \<Rightarrow> bool" where
  "name_falsy name = (case name of None \<Rightarrow> True | Some n \<Rightarrow> n = [])"

text \<open>\<open>x if x else []\<close> for the referenced file lists.\<close>

definition list_or_empty :: "'a list option \<Rightarrow> 'a list" where
  "list_or_empty xs = (case xs of None \<Rightarrow> [] | Some ys \<Rightarrow> ys)"

text \<open>
  \<open>Job.__init__\<close>, its arguments in the order of the signature (\<open>user_storage\<close>, which
  the body never reads, is left out). The name is the first command element when no
  name is given and the command is not empty.
\<close>

definition Job_init ::
  "nat \<Rightarrow> cmd_elem list \<Rightarrow> cmd_elem list option \<Rightarrow> cmd_elem list option \<Rightarrow> cmd_elem option
     \<Rightarrow> bool \<Rightarrow> int \<Rightarrow> string option \<Rightarrow> cmd_elem option \<Rightarrow> cmd_elem option
     \<Rightarrow> cmd_elem option \<Rightarrow> (string \<times> int) option \<Rightarrow> int \<Rightarrow> string option \<Rightarrow> Job" where
  "Job_init i command referenced_input_files referenced_output_files stdin join_stderrout
     disposal_timeout name stdout_file stderr_file working_directory parallel_job_info
     priority native_specification =
     \<lparr>j_oid = i,
      j_class = JobClass,
      j_name =
        (case command of
           first # _ \<Rightarrow> if name_falsy name then Some first else map_option Str name
         | [] \<Rightarrow> map_option Str name),
      j_command = command,
      j_referenced_input_files = list_or_empty referenced_input_files,
      j_referenced_output_files = list_or_empty referenced_output_files,
      j_stdin = stdin,
      j_join_stderrout = join_stderrout,
      j_disposal_timeout = disposal_timeout,
      j_stdout_file = stdout_file,
      j_stderr_file = stderr_file,
      j_working_directory = working_directory,
      j_parallel_job_info = parallel_job_info,
      j_priority = priority,
      j_native_specification = native_specification\<rparr>"

text \<open>
  The loop that ends \<open>Job.__init__\<close> warns about every string of the command that
  holds a single quote; these are the strings it warns about.
\<close>

definition Job_init_warnings :: "cmd_elem list \<Rightarrow> string list" where
  "Job_init_warnings command =
     concat (map (\<lambda>e. case e of Str s \<Rightarrow> (if CHR 0x27 \<in> set s then [s] else []) | _ \<Rightarrow> [])
               command)"

text \<open>
  \<open>BarrierJob.__init__\<close> calls \<open>Job.__init__\<close> with an empty command and the defaults
  of the other arguments.
\<close>

definition BarrierJob_init ::
  "nat \<Rightarrow> cmd_elem list option \<Rightarrow> cmd_elem list option \<Rightarrow> string option \<Rightarrow> Job" where
  "BarrierJob_init i referenced_input_files referenced_output_files name =
     (Job_init i [] referenced_input_files referenced_output_files None False 168 name
        None None None None 0 None)\<lparr>j_class := BarrierJobClass\<rparr>"

section \<open>\<open>client_types.py\<close>: groups and workflows\<close>

text \<open>
  A group holds jobs and groups. The datatype makes the membership relation a finite
  tree, the forest the specification requires; a group that contains itself is not a
  value of the type. \<open>Group\<close> defines no \<open>__eq__\<close>: two groups are the same key of a
  dictionary when they are the same object, here when they are equal as values, the
  identity \<open>g_oid\<close> included.
\<close>

datatype element = EJob Job | EGroup group
  and group = Group (g_oid: nat) (g_elements: "element list") (g_name: string)

type_synonym dependency = "element \<times> element"

text \<open>\<open>isinstance(x, Group)\<close>.\<close>

fun is_group :: "element \<Rightarrow> bool" where
  "is_group (EGroup g) = True"
| "is_group (EJob j) = False"

text \<open>\<open>[element for element in group.elements if isinstance(element, Group)]\<close>.\<close>

fun groups_among :: "element list \<Rightarrow> group list" where
  "groups_among [] = []"
| "groups_among (EGroup g # es) = g # groups_among es"
| "groups_among (EJob j # es) = groups_among es"

text \<open>
  The containers \<open>jobs\<close> and \<open>dependencies\<close> are tested with \<open>type(...) is list\<close>,
  \<open>set\<close> or \<open>tuple\<close>; any other iterable is \<open>PyOther\<close>. Each value lists its items
  in iteration order. The order in which a Python set enumerates is left open by the
  language: for \<open>PySet\<close> the list is one enumeration, and only its set of items is
  meaningful.
\<close>

datatype 'a py_seq = PyList "'a list" | PyTuple "'a list" | PySet "'a list" | PyOther "'a list"

fun seq_items :: "'a py_seq \<Rightarrow> 'a list" where
  "seq_items (PyList xs) = xs"
| "seq_items (PyTuple xs) = xs"
| "seq_items (PySet xs) = xs"
| "seq_items (PyOther xs) = xs"

fun map_seq :: "('a \<Rightarrow> 'b) \<Rightarrow> 'a py_seq \<Rightarrow> 'b py_seq" where
  "map_seq f (PyList xs) = PyList (map f xs)"
| "map_seq f (PyTuple xs) = PyTuple (map f xs)"
| "map_seq f (PySet xs) = PySet (map f xs)"
| "map_seq f (PyOther xs) = PyOther (map f xs)"

text \<open>\<open>s.update(ys)\<close> and \<open>s.difference_update(ys)\<close> on the enumeration of a set.\<close>

definition set_update :: "'a list \<Rightarrow> 'a list \<Rightarrow> 'a list" where
  "set_update xs ys = xs @ filter (\<lambda>y. y \<notin> set xs) (remdups ys)"

definition set_difference_update :: "'a list \<Rightarrow> 'a list \<Rightarrow> 'a list" where
  "set_difference_update xs ys = filter (\<lambda>x. x \<notin> set ys) xs"

record Workflow =
  wf_name :: "string option"
  wf_jobs :: "Job py_seq"
  wf_dependencies :: "dependency py_seq"
  wf_root_group :: "element py_seq option"
  wf_groups :: "group list"
  wf_disposal_timeout :: int

subsection \<open>Barrier hubs of a group\<close>

text \<open>
  The state the hub functions work on: \<open>self.jobs\<close>, the dictionary \<open>group_to_hub\<close>
  (its items in insertion order) and the identity the next new object gets.
\<close>

record hub_state =
  hs_jobs :: "Job py_seq"
  hs_group_to_hub :: "(group \<times> (Job \<times> Job)) list"
  hs_next_oid :: nat

text \<open>
  \<open>__group_hubs\<close>: the hubs already made for the group, or a new pair of barrier jobs
  named \<open><group>_input\<close> and \<open><group>_output\<close>, recorded in the dictionary and added
  to the jobs. The dictionary is updated before the type of \<open>self.jobs\<close> is looked at.
\<close>

definition group_hubs :: "group \<Rightarrow> hub_state \<Rightarrow> py_error + ((Job \<times> Job) \<times> hub_state)" where
  "group_hubs g s =
     (case map_of (hs_group_to_hub s) g of
        Some ghubs \<Rightarrow> Inr (ghubs, s)
      | None \<Rightarrow>
          (let hub_in = BarrierJob_init (hs_next_oid s) None None (Some (g_name g @ ''_input''));
               hub_out = BarrierJob_init (hs_next_oid s + 1) None None
                           (Some (g_name g @ ''_output''));
               s' = s\<lparr>hs_group_to_hub := hs_group_to_hub s @ [(g, (hub_in, hub_out))],
                       hs_next_oid := hs_next_oid s + 2\<rparr>
           in case hs_jobs s of
                PyList js \<Rightarrow> Inr ((hub_in, hub_out), s'\<lparr>hs_jobs := PyList (js @ [hub_in, hub_out])\<rparr>)
              | PySet js \<Rightarrow>
                  Inr ((hub_in, hub_out), s'\<lparr>hs_jobs := PySet (set_update js [hub_in, hub_out])\<rparr>)
              | PyTuple js \<Rightarrow>
                  Inr ((hub_in, hub_out), s'\<lparr>hs_jobs := PyList (js @ [hub_in, hub_out])\<rparr>)
              | PyOther js \<Rightarrow> Inl TypeError))"

text \<open>
  \<open>__group_hubs_recurs\<close>: the loop takes the first group of the queue, makes its hubs,
  and appends its sub-groups to the queue. \<open>ghubs\<close> keeps the hubs of the first group
  treated.
\<close>

function group_hubs_loop ::
  "group list \<Rightarrow> (Job \<times> Job) option \<Rightarrow> hub_state
     \<Rightarrow> py_error + ((Job \<times> Job) option \<times> hub_state)" where
  "group_hubs_loop [] ghubs s = Inr (ghubs, s)"
| "group_hubs_loop (g # groups) ghubs s =
     (case group_hubs g s of
        Inl e \<Rightarrow> Inl e
      | Inr (ghubs_tmp, s') \<Rightarrow>
          group_hubs_loop (groups @ groups_among (g_elements g))
            (case ghubs of None \<Rightarrow> Some ghubs_tmp | Some h \<Rightarrow> Some h) s')"
  by pat_completeness auto

termination
proof (relation "measure (\<lambda>(gs, h, s). size_list size gs)")
  show "wf (measure (\<lambda>(gs, h, s). size_list size gs))" by simp
next
  fix g :: group and groups :: "group list" and ghubs :: "(Job \<times> Job) option"
    and s :: hub_state and x2 :: "(Job \<times> Job) \<times> hub_state" and x y
  have le: "size_list size (groups_among es) \<le> size_list size es" for es
    by (induction es rule: groups_among.induct) auto
  have "size_list size (groups_among (g_elements g)) < Suc (size g)"
    using le [of "g_elements g"] by (cases g) simp
  then show "((groups @ groups_among (g_elements g),
               case ghubs of None \<Rightarrow> Some x | Some h \<Rightarrow> Some h, y), g # groups, ghubs, s)
             \<in> measure (\<lambda>(gs, h, s). size_list size gs)"
    by simp
qed

text \<open>
  \<open>__group_hubs_recurs\<close> returns \<open>ghubs\<close>, which is \<open>None\<close> only if the loop never
  ran.
\<close>

definition group_hubs_recurs ::
  "group \<Rightarrow> hub_state \<Rightarrow> py_error + ((Job \<times> Job) option \<times> hub_state)" where
  "group_hubs_recurs grp s = group_hubs_loop [grp] None s"

text \<open>
  \<open>__make_group_hubs_deps\<close>: for every element of the group, an edge from the input
  hub and an edge to the output hub; a sub-group is reached through its own hubs.
\<close>

fun hubs_deps_loop ::
  "element list \<Rightarrow> Job \<Rightarrow> Job \<Rightarrow> dependency list \<Rightarrow> hub_state
     \<Rightarrow> py_error + (dependency list \<times> hub_state)" where
  "hubs_deps_loop [] in_hub out_hub dependencies s = Inr (dependencies, s)"
| "hubs_deps_loop (EGroup item # rest) in_hub out_hub dependencies s =
     (case group_hubs item s of
        Inl e \<Rightarrow> Inl e
      | Inr (sub_hub, s') \<Rightarrow>
          hubs_deps_loop rest in_hub out_hub
            (dependencies @ [(EJob in_hub, EJob (fst sub_hub)), (EJob (snd sub_hub), EJob out_hub)])
            s')"
| "hubs_deps_loop (EJob item # rest) in_hub out_hub dependencies s =
     hubs_deps_loop rest in_hub out_hub
       (dependencies @ [(EJob in_hub, EJob item), (EJob item, EJob out_hub)]) s"

definition make_group_hubs_deps ::
  "group \<Rightarrow> hub_state \<Rightarrow> py_error + (dependency list \<times> hub_state)" where
  "make_group_hubs_deps grp s =
     (case group_hubs grp s of
        Inl e \<Rightarrow> Inl e
      | Inr ((in_hub, out_hub), s') \<Rightarrow> hubs_deps_loop (g_elements grp) in_hub out_hub [] s')"

subsection \<open>\<open>__convert_group_dependencies\<close>\<close>

text \<open>
  The local variables of the method. \<open>deps_to_remove\<close> holds indices when
  \<open>self.dependencies\<close> is a list or a tuple and dependencies otherwise; the model keeps
  the two kinds in two lists, of which one stays empty.
\<close>

record convert_state =
  cs_new_deps_list :: "dependency list"
  cs_index_to_remove :: "nat list"
  cs_deps_to_remove :: "dependency list"
  cs_hubs :: hub_state

text \<open>\<open>xs.index(x)\<close> raises \<open>ValueError\<close> when \<open>x\<close> is not in the list.\<close>

fun py_index :: "'a list \<Rightarrow> 'a \<Rightarrow> py_error + nat" where
  "py_index [] x = Inl ValueError"
| "py_index (y # ys) x = (if y = x then Inr 0 else map_sum id Suc (py_index ys x))"

text \<open>\<open>del xs[k]\<close> raises \<open>IndexError\<close> when \<open>k\<close> is out of range.\<close>

definition py_del :: "'a list \<Rightarrow> nat \<Rightarrow> py_error + 'a list" where
  "py_del xs k = (if k < length xs then Inr (take k xs @ drop (Suc k) xs) else Inl IndexError)"

fun del_all :: "'a list \<Rightarrow> nat list \<Rightarrow> py_error + 'a list" where
  "del_all xs [] = Inr xs"
| "del_all xs (k # ks) = (case py_del xs k of Inl e \<Rightarrow> Inl e | Inr ys \<Rightarrow> del_all ys ks)"

text \<open>
  The bookkeeping of one converted dependency: its index goes to the front of
  \<open>deps_to_remove\<close> (looked up with \<open>index\<close> when a dependency list was passed), or
  the dependency itself goes to its end.
\<close>

definition note_removal ::
  "bool \<Rightarrow> dependency py_seq \<Rightarrow> nat \<Rightarrow> dependency \<Rightarrow> convert_state \<Rightarrow> py_error + convert_state" where
  "note_removal reindex self_dependencies index dependency c =
     (let in_sequence = (\<lambda>ds.
            if reindex then
              (case py_index ds dependency of
                 Inl e \<Rightarrow> Inl e
               | Inr k \<Rightarrow> Inr (c\<lparr>cs_index_to_remove := k # cs_index_to_remove c\<rparr>))
            else Inr (c\<lparr>cs_index_to_remove := index # cs_index_to_remove c\<rparr>))
      in case self_dependencies of
           PyList ds \<Rightarrow> in_sequence ds
         | PyTuple ds \<Rightarrow> in_sequence ds
         | PySet ds \<Rightarrow> Inr (c\<lparr>cs_deps_to_remove := cs_deps_to_remove c @ [dependency]\<rparr>)
         | PyOther ds \<Rightarrow> Inr (c\<lparr>cs_deps_to_remove := cs_deps_to_remove c @ [dependency]\<rparr>))"

text \<open>
  An endpoint that is a group is replaced by a hub of the group, picked by \<open>pick\<close>
  (\<open>ghubs[1]\<close>, the output hub, for the source of an edge and \<open>ghubs[0]\<close>, the input
  hub, for its target). Subscripting \<open>None\<close> raises \<open>TypeError\<close>.
\<close>

definition replace_group ::
  "(Job \<times> Job \<Rightarrow> Job) \<Rightarrow> element \<Rightarrow> hub_state \<Rightarrow> py_error + (element \<times> hub_state)" where
  "replace_group pick j s =
     (case j of
        EJob job \<Rightarrow> Inr (EJob job, s)
      | EGroup g \<Rightarrow>
          (case group_hubs_recurs g s of
             Inl e \<Rightarrow> Inl e
           | Inr (None, s') \<Rightarrow> Inl TypeError
           | Inr (Some ghubs, s') \<Rightarrow> Inr (EJob (pick ghubs), s')))"

fun convert_loop ::
  "bool \<Rightarrow> dependency py_seq \<Rightarrow> (nat \<times> dependency) list \<Rightarrow> convert_state
     \<Rightarrow> py_error + convert_state" where
  "convert_loop reindex self_dependencies [] c = Inr c"
| "convert_loop reindex self_dependencies ((index, (j1, j2)) # rest) c =
     (if \<not> is_group j1 \<and> \<not> is_group j2 then convert_loop reindex self_dependencies rest c
      else
        (case note_removal reindex self_dependencies index (j1, j2) c of
           Inl e \<Rightarrow> Inl e
         | Inr c1 \<Rightarrow>
             (case replace_group snd j1 (cs_hubs c1) of
                Inl e \<Rightarrow> Inl e
              | Inr (j1', s1) \<Rightarrow>
                  (case replace_group fst j2 s1 of
                     Inl e \<Rightarrow> Inl e
                   | Inr (j2', s2) \<Rightarrow>
                       convert_loop reindex self_dependencies rest
                         (c1\<lparr>cs_new_deps_list := cs_new_deps_list c1 @ [(j1', j2')],
                             cs_hubs := s2\<rparr>)))))"

text \<open>
  The loop over \<open>group_to_hub\<close> that rebuilds the links inside the groups. It runs
  over the items the dictionary had when the loop started, \<open>n\<close> of them; a dictionary
  that changes size while it is iterated raises \<open>RuntimeError\<close>.
\<close>

fun intra_group_loop ::
  "(group \<times> (Job \<times> Job)) list \<Rightarrow> nat \<Rightarrow> dependency list \<Rightarrow> hub_state
     \<Rightarrow> py_error + (dependency list \<times> hub_state)" where
  "intra_group_loop [] n new_deps_list s = Inr (new_deps_list, s)"
| "intra_group_loop ((grp, ghubs) # rest) n new_deps_list s =
     (case make_group_hubs_deps grp s of
        Inl e \<Rightarrow> Inl e
      | Inr (deps, s') \<Rightarrow>
          if length (hs_group_to_hub s') \<noteq> n then Inl RuntimeError
          else intra_group_loop rest n (new_deps_list @ deps) s')"

text \<open>
  The method, with \<open>self\<close> the workflow and the identity the next new object gets. It
  returns the workflow as the method leaves it and, beside it, the hub state at the
  return (the local \<open>group_to_hub\<close> among it), which the properties below refer to.
\<close>

definition convert_group_dependencies_run ::
  "dependency py_seq option \<Rightarrow> Workflow \<Rightarrow> nat \<Rightarrow> py_error + (Workflow \<times> hub_state)" where
  "convert_group_dependencies_run dependencies self next_oid =
     (let reindex = (dependencies \<noteq> None);
          deps = (case dependencies of None \<Rightarrow> wf_dependencies self | Some d \<Rightarrow> d);
          c0 = \<lparr>cs_new_deps_list = [], cs_index_to_remove = [], cs_deps_to_remove = [],
                cs_hubs = \<lparr>hs_jobs = wf_jobs self, hs_group_to_hub = [],
                           hs_next_oid = next_oid\<rparr>\<rparr>
      in case convert_loop reindex (wf_dependencies self) (enumerate 0 (seq_items deps)) c0 of
           Inl e \<Rightarrow> Inl e
         | Inr c \<Rightarrow>
             (case intra_group_loop (hs_group_to_hub (cs_hubs c))
                     (length (hs_group_to_hub (cs_hubs c))) (cs_new_deps_list c) (cs_hubs c) of
                Inl e \<Rightarrow> Inl e
              | Inr (new_deps_list, s) \<Rightarrow>
                  (case wf_dependencies self of
                     PySet ds \<Rightarrow>
                       Inr (self\<lparr>wf_jobs := hs_jobs s,
                                 wf_dependencies :=
                                   PySet (set_update
                                            (set_difference_update ds (cs_deps_to_remove c))
                                            new_deps_list)\<rparr>, s)
                   | PyList ds \<Rightarrow>
                       (case del_all ds (cs_index_to_remove c) of
                          Inl e \<Rightarrow> Inl e
                        | Inr ds' \<Rightarrow>
                            Inr (self\<lparr>wf_jobs := hs_jobs s,
                                      wf_dependencies := PyList (ds' @ new_deps_list)\<rparr>, s))
                   | PyTuple ds \<Rightarrow>
                       (case del_all ds (cs_index_to_remove c) of
                          Inl e \<Rightarrow> Inl e
                        | Inr ds' \<Rightarrow>
                            Inr (self\<lparr>wf_jobs := hs_jobs s,
                                      wf_dependencies := PyList (ds' @ new_deps_list)\<rparr>, s))
                   | PyOther ds \<Rightarrow> Inl TypeError)))"

definition convert_group_dependencies ::
  "dependency py_seq option \<Rightarrow> Workflow \<Rightarrow> nat \<Rightarrow> py_error + (Workflow \<times> nat)" where
  "convert_group_dependencies dependencies self next_oid =
     (case convert_group_dependencies_run dependencies self next_oid of
        Inl e \<Rightarrow> Inl e
      | Inr (w, s) \<Rightarrow> Inr (w, hs_next_oid s))"

subsection \<open>\<open>Workflow.__init__\<close>\<close>

text \<open>
  The walk that collects the groups below the root group: \<open>to_explore.pop()\<close> takes
  the last group of the list, which is appended to \<open>self.groups\<close>, and its sub-groups
  are appended to \<open>to_explore\<close>.
\<close>

function explore_groups :: "group list \<Rightarrow> group list \<Rightarrow> group list" where
  "explore_groups to_explore groups =
     (if to_explore = [] then groups
      else explore_groups
             (butlast to_explore @ groups_among (g_elements (last to_explore)))
             (groups @ [last to_explore]))"
  by pat_completeness auto
termination
proof (relation "measure (\<lambda>(to_explore, groups). size_list size to_explore)")
  show "wf (measure (\<lambda>(to_explore, groups). size_list size to_explore))" by simp
next
  fix to_explore groups :: "group list"
  assume ne: "to_explore \<noteq> []"
  have le: "size_list size (groups_among es) \<le> size_list size es" for es
    by (induction es rule: groups_among.induct) auto
  have sub: "size_list size (groups_among (g_elements g)) < Suc (size g)" for g
    using le [of "g_elements g"] by (cases g) simp
  have "size_list size to_explore
          = size_list size (butlast to_explore) + Suc (size (last to_explore))"
    using ne by (induction to_explore) auto
  then show "((butlast to_explore @ groups_among (g_elements (last to_explore)),
               groups @ [last to_explore]), to_explore, groups)
             \<in> measure (\<lambda>(to_explore, groups). size_list size to_explore)"
    using sub [of "last to_explore"] by simp
qed

declare explore_groups.simps [simp del]

text \<open>
  The \<open>root_group\<close> argument: \<open>None\<close>, a \<open>Group\<close>, or a sequence of jobs and groups.
\<close>

datatype root_arg = RootNone | RootGroup group | RootSeq "element list"

definition with_root_group :: "element list \<Rightarrow> Workflow \<Rightarrow> Workflow" where
  "with_root_group root w =
     w\<lparr>wf_root_group := Some (PyList root),
       wf_groups := explore_groups (groups_among root) []\<rparr>"

definition root_truthy :: "root_arg \<Rightarrow> bool" where
  "root_truthy root_group =
     (case root_group of RootNone \<Rightarrow> False | RootGroup g \<Rightarrow> True | RootSeq es \<Rightarrow> es \<noteq> [])"

text \<open>
  \<open>Workflow.__init__\<close>, its arguments in the order of the signature (without
  \<open>user_storage\<close>, which the body never reads), and the identity the next new object
  gets. \<open>self.disposal_timeout\<close> is assigned the literal \<open>168\<close>.
\<close>

definition Workflow_init ::
  "Job py_seq \<Rightarrow> dependency py_seq option \<Rightarrow> root_arg \<Rightarrow> int \<Rightarrow> string option \<Rightarrow> nat
     \<Rightarrow> py_error + (Workflow \<times> nat)" where
  "Workflow_init jobs dependencies root_group disposal_timeout name next_oid =
     (let w0 = \<lparr>wf_name = name, wf_jobs = jobs,
                wf_dependencies = (case dependencies of Some d \<Rightarrow> d | None \<Rightarrow> PyList []),
                wf_root_group = None, wf_groups = [], wf_disposal_timeout = 168\<rparr>;
          w1 = (case root_group of
                  RootNone \<Rightarrow> w0
                | RootGroup g \<Rightarrow> with_root_group (g_elements g) w0
                | RootSeq es \<Rightarrow> if es \<noteq> [] then with_root_group es w0 else w0)
      in case convert_group_dependencies None w1 next_oid of
           Inl e \<Rightarrow> Inl e
         | Inr (w2, n) \<Rightarrow>
             Inr (if \<not> root_truthy root_group
                  then w2\<lparr>wf_root_group := Some (map_seq EJob (wf_jobs w2))\<rparr>
                  else w2, n))"

section \<open>Properties of the special paths\<close>


lemma py_format_ss: "py_format ''%s%s'' [a, b] = Inr (a @ b)"
  by simp





text \<open>
  C6. A \<open>FileTransfer\<close> built by the normal constructor has the initial status
  \<open>FILES_ON_CLIENT\<close> when \<open>is_input\<close> is true and \<open>FILES_DO_NOT_EXIST\<close> when it is
  false, whatever the other arguments are.
\<close>

theorem FileTransfer_initial_status:
  assumes "FileTransfer_init i (IsInput b) client_path disposal_timeout name client_paths = Inr t"
  shows "ft_initial_status t = Some (if b then FILES_ON_CLIENT else FILES_DO_NOT_EXIST)"
  using assms
  by (auto simp: FileTransfer_init_def ft_initial_status_def ft_referent_def
      split: option.splits)

theorem FileTransfer_initial_status_witness:
  "(\<exists>t. FileTransfer_init 1 (IsInput True) (Some ''/client/in'') 168 None None = Inr t
       \<and> ft_initial_status t = Some FILES_ON_CLIENT)
   \<and> (\<exists>t. FileTransfer_init 2 (IsInput False) (Some ''/client/out'') 168 None None = Inr t
       \<and> ft_initial_status t = Some FILES_DO_NOT_EXIST)"
proof -
  obtain t1 where t1: "FileTransfer_init 1 (IsInput True) (Some ''/client/in'') 168 None None = Inr t1"
    by (simp add: FileTransfer_init_def)
  obtain t2 where t2: "FileTransfer_init 2 (IsInput False) (Some ''/client/out'') 168 None None = Inr t2"
    by (simp add: FileTransfer_init_def)
  show ?thesis
    using t1 t2 FileTransfer_initial_status[OF t1] FileTransfer_initial_status[OF t2] by simp
qed



section \<open>Properties of the job constructor\<close>

text \<open>
  C10. A job built with a falsy name (\<open>None\<close> or the empty string) and a command that
  is not empty is named after the first element of the command; in every other case
  its name is the \<open>name\<close> argument.
\<close>

theorem Job_init_name:
  "j_name (Job_init i command referenced_input_files referenced_output_files stdin
             join_stderrout disposal_timeout name stdout_file stderr_file
             working_directory parallel_job_info priority native_specification) =
     (if (name = None \<or> name = Some []) \<and> command \<noteq> [] then Some (hd command)
      else map_option Str name)"
  by (cases command; cases name) (auto simp: Job_init_def name_falsy_def)

end
